theory Spec2Isabelle
  imports Complex_Main
begin

section \<open>Python strings\<close>

text \<open>
  A Python \<open>str\<close> is a sequence of Unicode code points, here a list of natural numbers.
  Program literals are written as ASCII strings and turned into code points by \<open>ustr\<close>.
\<close>

type_synonym ustring = "nat list"

definition ustr :: "string \<Rightarrow> ustring" where
  "ustr s = map of_char s"

definition newline :: nat where
  "newline = 0x0A"

definition dquote :: nat where
  "dquote = 0x22"

definition is_space :: "nat \<Rightarrow> bool" where
  \<comment> \<open>the code points that \<open>str.strip()\<close> removes: those of \<open>str.isspace\<close>\<close>
  "is_space c =
     ((0x09 \<le> c \<and> c \<le> 0x0D) \<or> (0x1C \<le> c \<and> c \<le> 0x20)
      \<or> c = 0x85 \<or> c = 0xA0 \<or> c = 0x1680
      \<or> (0x2000 \<le> c \<and> c \<le> 0x200A)
      \<or> c = 0x2028 \<or> c = 0x2029 \<or> c = 0x202F \<or> c = 0x205F \<or> c = 0x3000)"

definition py_strip :: "ustring \<Rightarrow> ustring" where
  \<comment> \<open>\<open>s.strip()\<close>\<close>
  "py_strip s = rev (dropWhile is_space (rev (dropWhile is_space s)))"

subsection \<open>Case conversion over the Unicode character database\<close>

text \<open>
  \<open>str.lower\<close> and \<open>str.title\<close> read the case tables of the Unicode character
  database, which are no part of the program. The tables are a parameter: the full
  lower-case and title-case mappings of a code point (one to three code points each) and
  the properties \<open>Cased\<close> and \<open>Case_Ignorable\<close>. The two methods are the loops of the
  interpreter over these tables, the rule for the final sigma included.
\<close>

record ucd =
  to_lower_full :: "nat \<Rightarrow> ustring"
  to_title_full :: "nat \<Rightarrow> ustring"
  is_cased :: "nat \<Rightarrow> bool"
  is_case_ignorable :: "nat \<Rightarrow> bool"

definition final_sigma :: "ucd \<Rightarrow> ustring \<Rightarrow> ustring \<Rightarrow> bool" where
  \<comment> \<open>a capital sigma is final when a cased letter comes before it and none after it,
      code points that are ignorable for case set aside; the first string is what precedes
      the sigma, nearest code point first, the second what follows it\<close>
  "final_sigma u pre post =
     ((case dropWhile (is_case_ignorable u) pre of [] \<Rightarrow> False | c # _ \<Rightarrow> is_cased u c)
      \<and> (case dropWhile (is_case_ignorable u) post of [] \<Rightarrow> True | c # _ \<Rightarrow> \<not> is_cased u c))"

definition lower_ucs4 :: "ucd \<Rightarrow> ustring \<Rightarrow> nat \<Rightarrow> ustring \<Rightarrow> ustring" where
  \<comment> \<open>the lower-case form of one code point in its context\<close>
  "lower_ucs4 u pre c post =
     (if c = 0x3A3 then [if final_sigma u pre post then 0x3C2 else 0x3C3]
      else to_lower_full u c)"

fun lower_from :: "ucd \<Rightarrow> ustring \<Rightarrow> ustring \<Rightarrow> ustring" where
  "lower_from u pre [] = []"
| "lower_from u pre (c # cs) = lower_ucs4 u pre c cs @ lower_from u (c # pre) cs"

definition py_lower :: "ucd \<Rightarrow> ustring \<Rightarrow> ustring" where
  \<comment> \<open>\<open>s.lower()\<close>\<close>
  "py_lower u s = lower_from u [] s"

fun title_from :: "ucd \<Rightarrow> ustring \<Rightarrow> bool \<Rightarrow> ustring \<Rightarrow> ustring" where
  \<comment> \<open>the flag is \<open>previous_is_cased\<close>\<close>
  "title_from u pre prev [] = []"
| "title_from u pre prev (c # cs) =
     (if prev then lower_ucs4 u pre c cs else to_title_full u c)
     @ title_from u (c # pre) (is_cased u c) cs"

definition py_title :: "ucd \<Rightarrow> ustring \<Rightarrow> ustring" where
  \<comment> \<open>\<open>s.title()\<close>\<close>
  "py_title u s = title_from u [] False s"

definition ascii_ucd :: ucd where
  \<comment> \<open>the tables on the ASCII code points; every other code point is left as it is\<close>
  "ascii_ucd =
     \<lparr> to_lower_full = (\<lambda>c. if 0x41 \<le> c \<and> c \<le> 0x5A then [c + 0x20] else [c]),
       to_title_full = (\<lambda>c. if 0x61 \<le> c \<and> c \<le> 0x7A then [c - 0x20] else [c]),
       is_cased = (\<lambda>c. (0x41 \<le> c \<and> c \<le> 0x5A) \<or> (0x61 \<le> c \<and> c \<le> 0x7A)),
       is_case_ignorable = (\<lambda>c. c = 0x27 \<or> c = 0x2E \<or> c = 0x3A \<or> c = 0x5E \<or> c = 0x60) \<rparr>"

definition ascii_cases :: "ucd \<Rightarrow> bool" where
  \<comment> \<open>the tables give the ASCII code points their ASCII case mappings, as the Unicode
      character database does\<close>
  "ascii_cases u =
     (\<forall>c<0x80. to_lower_full u c = to_lower_full ascii_ucd c
              \<and> to_title_full u c = to_title_full ascii_ucd c
              \<and> is_cased u c = is_cased ascii_ucd c)"

definition is_ascii :: "ustring \<Rightarrow> bool" where
  "is_ascii s = list_all (\<lambda>c. c < 0x80) s"

subsection \<open>Splitting and searching\<close>

fun split_from :: "nat \<Rightarrow> ustring \<Rightarrow> ustring \<Rightarrow> ustring list" where
  \<comment> \<open>the second argument is the piece collected so far, reversed\<close>
  "split_from sep acc [] = [rev acc]"
| "split_from sep acc (c # cs) =
     (if c = sep then rev acc # split_from sep [] cs else split_from sep (c # acc) cs)"

definition py_split :: "nat \<Rightarrow> ustring \<Rightarrow> ustring list" where
  \<comment> \<open>\<open>s.split(sep)\<close> for a separator of one character\<close>
  "py_split sep s = split_from sep [] s"

fun startswith :: "ustring \<Rightarrow> ustring \<Rightarrow> bool" where
  \<comment> \<open>\<open>s.startswith(p)\<close>\<close>
  "startswith s [] = True"
| "startswith [] (p # ps) = False"
| "startswith (c # cs) (p # ps) = (c = p \<and> startswith cs ps)"

fun contains :: "ustring \<Rightarrow> ustring \<Rightarrow> bool" where
  \<comment> \<open>\<open>sub in s\<close>; the first argument is \<open>sub\<close>\<close>
  "contains sub [] = (sub = [])"
| "contains sub (c # cs) = (startswith (c # cs) sub \<or> contains sub cs)"

section \<open>Values, exceptions and HTTP\<close>

datatype json =
    JNull
  | JBool bool
  | JNum rat
  | JStr ustring
  | JArr "json list"
  | JObj "(ustring \<times> json) list"

datatype py_exception =
    ConnectionError
  | Timeout
  | JSONDecodeError
  | KeyError
  | TypeError
  | AttributeError
  | IndexError
  | RuntimeError
  | HTTPException nat string

fun is_RequestException :: "py_exception \<Rightarrow> bool" where
  \<comment> \<open>the members of \<open>requests.exceptions\<close>; the error of \<open>Response.json\<close> is one of them\<close>
  "is_RequestException ConnectionError = True"
| "is_RequestException Timeout = True"
| "is_RequestException JSONDecodeError = True"
| "is_RequestException _ = False"

datatype http_method = GET | POST

datatype http_payload = NoPayload | JsonPayload json | FormPayload "(ustring \<times> ustring) list"

record http_request =
  meth :: http_method
  url :: string
  payload :: http_payload
  timeout :: nat

record http_response =
  status_code :: nat
  body :: "json option"

datatype http_outcome = Raises py_exception | Returns http_response

type_synonym net = "http_request \<Rightarrow> http_outcome"

definition response_json :: "http_response \<Rightarrow> py_exception + json" where
  \<comment> \<open>\<open>response.json()\<close>; a body that is not JSON is \<open>None\<close>\<close>
  "response_json r = (case body r of None \<Rightarrow> Inl JSONDecodeError | Some v \<Rightarrow> Inr v)"

fun subscript :: "json \<Rightarrow> ustring \<Rightarrow> py_exception + json" where
  \<comment> \<open>\<open>v[key]\<close> for a string key\<close>
  "subscript (JObj kvs) k = (case map_of kvs k of None \<Rightarrow> Inl KeyError | Some v \<Rightarrow> Inr v)"
| "subscript _ k = Inl TypeError"

fun str_strip :: "json \<Rightarrow> py_exception + ustring" where
  \<comment> \<open>\<open>v.strip()\<close>: only a \<open>str\<close> has the method\<close>
  "str_strip (JStr s) = Inr (py_strip s)"
| "str_strip _ = Inl AttributeError"

fun dict_lookup :: "json \<Rightarrow> ustring \<Rightarrow> json option" where
  \<comment> \<open>the value under a key of a dict, when the value is a dict and has the key\<close>
  "dict_lookup (JObj kvs) k = map_of kvs k"
| "dict_lookup _ k = None"

fun is_str :: "json \<Rightarrow> bool" where
  "is_str (JStr s) = True"
| "is_str _ = False"

definition index0 :: "'a list \<Rightarrow> py_exception + 'a" where
  \<comment> \<open>\<open>xs[0]\<close>\<close>
  "index0 xs = (case xs of [] \<Rightarrow> Inl IndexError | x # _ \<Rightarrow> Inr x)"

definition always :: "http_outcome \<Rightarrow> net" where
  \<comment> \<open>a service that gives the same outcome to every request\<close>
  "always out req = out"

definition ok_reply :: "json \<Rightarrow> http_outcome" where
  \<comment> \<open>a reply with status 200 and a JSON body\<close>
  "ok_reply v = Returns \<lparr> status_code = 200, body = Some v \<rparr>"

definition only_for :: "http_request \<Rightarrow> http_outcome \<Rightarrow> net" where
  \<comment> \<open>a service that gives the outcome to one request and refuses every other\<close>
  "only_for r out req = (if req = r then out else Raises ConnectionError)"

section \<open>The API service: \<open>backend/main.py\<close>\<close>

record analysis =
  sentiment :: ustring
  text_echo :: ustring
  raw_response :: ustring

text \<open>
  What the module keeps from one request to the next is its logger, which is only written
  to. The records written so far are the state that \<open>analyze_sentiment\<close> is given and
  gives back.
\<close>

datatype log_record =
    InfoAnalyzed ustring ustring
  | ErrorStatus nat
  | ErrorRequest py_exception
  | ErrorUnexpected py_exception

record outcome =
  logged :: "log_record list"
  sent :: "http_request list"
  result :: "py_exception + analysis"

definition valid_sentiments :: "ustring list" where
  "valid_sentiments = [ustr ''Positive'', ustr ''Negative'', ustr ''Neutral'']"

definition normalize :: "ucd \<Rightarrow> ustring \<Rightarrow> py_exception + ustring" where
  \<comment> \<open>lines 71 to 83 of \<open>analyze_sentiment\<close>, from \<open>sentiment_raw\<close> to \<open>sentiment_clean\<close>\<close>
  "normalize u sentiment_raw =
     (case index0 (py_split newline sentiment_raw) of
        Inl e \<Rightarrow> Inl e
      | Inr line \<Rightarrow>
          (let sentiment_clean = py_title u (py_strip line) in
           if sentiment_clean \<notin> set valid_sentiments then
             (let sentiment_lower = py_lower u sentiment_clean in
              if contains (ustr ''positive'') sentiment_lower then Inr (ustr ''Positive'')
              else if contains (ustr ''negative'') sentiment_lower then Inr (ustr ''Negative'')
              else Inr (ustr ''Neutral''))
           else Inr sentiment_clean))"

definition build_prompt :: "ustring \<Rightarrow> ustring" where
  "build_prompt txt =
     ustr ''Analyze the sentiment of the following text and respond with exactly one word: Positive, Negative, or Neutral.''
     @ [newline, newline] @ ustr ''Text: '' @ [dquote] @ txt @ [dquote]
     @ [newline, newline] @ ustr ''Sentiment:''"

definition ollama_request :: "ustring \<Rightarrow> http_request" where
  "ollama_request txt =
     \<lparr> meth = POST,
       url = ''http://localhost:11434/api/generate'',
       payload = JsonPayload (JObj
         [(ustr ''model'', JStr (ustr ''mistral'')),
          (ustr ''prompt'', JStr (build_prompt txt)),
          (ustr ''stream'', JBool False),
          (ustr ''options'', JObj
             [(ustr ''temperature'', JNum (1 / 10)),
              (ustr ''top_p'', JNum (9 / 10)),
              (ustr ''num_predict'', JNum 10)])]),
       timeout = 30 \<rparr>"

definition analyze_try :: "ucd \<Rightarrow> net \<Rightarrow> log_record list \<Rightarrow> ustring \<Rightarrow> outcome" where
  \<comment> \<open>the body of the \<open>try\<close> block\<close>
  "analyze_try u net lg txt =
     (let req = ollama_request txt in
      (case net req of
         Raises e \<Rightarrow> \<lparr> logged = lg, sent = [req], result = Inl e \<rparr>
       | Returns response \<Rightarrow>
           if status_code response \<noteq> 200
           then \<lparr> logged = lg @ [ErrorStatus (status_code response)], sent = [req],
                  result = Inl (HTTPException 500 ''Failed to connect to Ollama service'') \<rparr>
           else
             (case response_json response of
                Inl e \<Rightarrow> \<lparr> logged = lg, sent = [req], result = Inl e \<rparr>
              | Inr reply \<Rightarrow>
                  (case subscript reply (ustr ''response'') of
                     Inl e \<Rightarrow> \<lparr> logged = lg, sent = [req], result = Inl e \<rparr>
                   | Inr v \<Rightarrow>
                       (case str_strip v of
                          Inl e \<Rightarrow> \<lparr> logged = lg, sent = [req], result = Inl e \<rparr>
                        | Inr sentiment_raw \<Rightarrow>
                            (case normalize u sentiment_raw of
                               Inl e \<Rightarrow> \<lparr> logged = lg, sent = [req], result = Inl e \<rparr>
                             | Inr sentiment_clean \<Rightarrow>
                                 \<lparr> logged = lg @ [InfoAnalyzed (take 50 txt) sentiment_clean],
                                   sent = [req],
                                   result = Inr \<lparr> sentiment = sentiment_clean,
                                                  text_echo = txt,
                                                  raw_response = sentiment_raw \<rparr> \<rparr>))))))"

definition analyze_except :: "py_exception \<Rightarrow> log_record \<times> py_exception" where
  \<comment> \<open>the two handlers, each with the record it logs; \<open>HTTPException\<close> is an
      \<open>Exception\<close>, so the second one catches the one raised on a status other than 200\<close>
  "analyze_except e =
     (if is_RequestException e
      then (ErrorRequest e, HTTPException 500
        ''Could not connect to Ollama service. Make sure Ollama is running and Mistral model is available.'')
      else (ErrorUnexpected e, HTTPException 500 ''An unexpected error occurred''))"

definition analyze_sentiment :: "ucd \<Rightarrow> net \<Rightarrow> log_record list \<Rightarrow> ustring \<Rightarrow> outcome" where
  "analyze_sentiment u net lg txt =
     (if py_strip txt = []
      then \<lparr> logged = lg, sent = [], result = Inl (HTTPException 400 ''Text cannot be empty'') \<rparr>
      else
        (let out = analyze_try u net lg txt in
         (case result out of
            Inl e \<Rightarrow>
              \<lparr> logged = logged out @ [fst (analyze_except e)], sent = sent out,
                result = Inl (snd (analyze_except e)) \<rparr>
          | Inr r \<Rightarrow> out)))"

fun serve :: "ucd \<Rightarrow> log_record list \<Rightarrow> (net \<times> ustring) list
                \<Rightarrow> log_record list \<times> (py_exception + analysis) list" where
  \<comment> \<open>the service answering requests one after the other, each with the behaviour of
      the inference service at that time; the log is handed from one to the next\<close>
  "serve u lg [] = (lg, [])"
| "serve u lg ((net, txt) # rest) =
     (let out = analyze_sentiment u net lg txt in
      (case serve u (logged out) rest of (lg', rs) \<Rightarrow> (lg', result out # rs)))"

subsection \<open>The normalization in the words of the specification\<close>

definition first_line :: "ustring \<Rightarrow> ustring" where
  "first_line s = takeWhile (\<lambda>c. c \<noteq> newline) s"

definition normalize_spec :: "ucd \<Rightarrow> ustring \<Rightarrow> ustring" where
  \<comment> \<open>first line, stripped and title-cased; kept when it is a label; otherwise lower-cased
      and searched for \<open>positive\<close>, then for \<open>negative\<close>\<close>
  "normalize_spec u raw =
     (let cleaned = py_title u (py_strip (first_line raw)) in
      if cleaned = ustr ''Positive'' \<or> cleaned = ustr ''Negative'' \<or> cleaned = ustr ''Neutral''
      then cleaned
      else
        (let lowered = py_lower u cleaned in
         if contains (ustr ''positive'') lowered then ustr ''Positive''
         else if contains (ustr ''negative'') lowered then ustr ''Negative''
         else ustr ''Neutral''))"

subsection \<open>Replies of the inference service\<close>

definition has_response_field :: "http_outcome \<Rightarrow> bool" where
  \<comment> \<open>the request completed with status 200 and a JSON body holding a \<open>response\<close> field\<close>
  "has_response_field out =
     (case out of
        Raises e \<Rightarrow> False
      | Returns response \<Rightarrow>
          status_code response = 200 \<and>
          (case body response of
             None \<Rightarrow> False
           | Some v \<Rightarrow> dict_lookup v (ustr ''response'') \<noteq> None))"

definition has_string_response :: "http_outcome \<Rightarrow> bool" where
  \<comment> \<open>as before, and the value of the field is a string\<close>
  "has_string_response out =
     (case out of
        Raises e \<Rightarrow> False
      | Returns response \<Rightarrow>
          status_code response = 200 \<and>
          (case body response of
             None \<Rightarrow> False
           | Some v \<Rightarrow>
               (case dict_lookup v (ustr ''response'') of None \<Rightarrow> False | Some w \<Rightarrow> is_str w)))"


subsection \<open>The health check\<close>

record health =
  api_status :: string
  ollama_status :: string
  mistral_available :: bool
  error :: "py_exception option"

fun py_iter :: "json \<Rightarrow> py_exception + json list" where
  \<comment> \<open>the items a \<open>for\<close> runs over: the elements of a list, the keys of a dict, the
      characters of a string\<close>
  "py_iter (JArr xs) = Inr xs"
| "py_iter (JObj kvs) = Inr (map (\<lambda>kv. JStr (fst kv)) kvs)"
| "py_iter (JStr s) = Inr (map (\<lambda>c. JStr [c]) s)"
| "py_iter _ = Inl TypeError"

fun str_startswith :: "json \<Rightarrow> ustring \<Rightarrow> py_exception + bool" where
  \<comment> \<open>\<open>v.startswith(p)\<close>: only a \<open>str\<close> has the method\<close>
  "str_startswith (JStr s) p = Inr (startswith s p)"
| "str_startswith _ p = Inl AttributeError"

fun any_mistral :: "json list \<Rightarrow> py_exception + bool" where
  \<comment> \<open>\<open>any(model["name"].startswith("mistral") for model in ...)\<close>; \<open>any\<close> stops at the
      first true item\<close>
  "any_mistral [] = Inr False"
| "any_mistral (model # rest) =
     (case subscript model (ustr ''name'') of
        Inl e \<Rightarrow> Inl e
      | Inr name \<Rightarrow>
          (case str_startswith name (ustr ''mistral'') of
             Inl e \<Rightarrow> Inl e
           | Inr b \<Rightarrow> if b then Inr True else any_mistral rest))"

definition tags_request :: http_request where
  "tags_request =
     \<lparr> meth = GET, url = ''http://localhost:11434/api/tags'', payload = NoPayload, timeout = 5 \<rparr>"

definition read_models :: "http_response \<Rightarrow> py_exception + bool" where
  \<comment> \<open>lines 110 and 111: what is done with a reply of status 200\<close>
  "read_models response =
     (case response_json response of
        Inl e \<Rightarrow> Inl e
      | Inr models \<Rightarrow>
          (case subscript models (ustr ''models'') of
             Inl e \<Rightarrow> Inl e
           | Inr ms \<Rightarrow>
               (case py_iter ms of
                  Inl e \<Rightarrow> Inl e
                | Inr items \<Rightarrow> any_mistral items)))"

definition health_try :: "net \<Rightarrow> py_exception + health" where
  "health_try net =
     (case net tags_request of
        Raises e \<Rightarrow> Inl e
      | Returns response \<Rightarrow>
          if status_code response = 200 then
            (case read_models response of
               Inl e \<Rightarrow> Inl e
             | Inr found \<Rightarrow>
                 Inr \<lparr> api_status = ''healthy'', ollama_status = ''connected'',
                       mistral_available = found, error = None \<rparr>)
          else
            Inr \<lparr> api_status = ''healthy'', ollama_status = ''error'',
                  mistral_available = False, error = None \<rparr>)"

definition health_check :: "net \<Rightarrow> http_request list \<times> health" where
  "health_check net =
     ([tags_request],
      (case health_try net of
         Inr h \<Rightarrow> h
       | Inl e \<Rightarrow>
           \<lparr> api_status = ''healthy'', ollama_status = ''disconnected'',
             mistral_available = False, error = Some e \<rparr>))"

section \<open>The UI client: \<open>frontend/app.py\<close>\<close>

text \<open>
  What the page shows is a list of elements. Messages are given without their leading
  emoji; the processing time and the clock reading of the details are left out.
\<close>

datatype ui =
    StError string
  | StErrorDetail json
  | StErrorUnexpected py_exception
  | StSuccess string
  | StMarkdown string ustring
  | StExpander nat "json option"

fun dict_get :: "json \<Rightarrow> ustring \<Rightarrow> json \<Rightarrow> py_exception + json" where
  \<comment> \<open>\<open>v.get(key, default)\<close>: only a dict has the method\<close>
  "dict_get (JObj kvs) k d = (case map_of kvs k of None \<Rightarrow> Inr d | Some v \<Rightarrow> Inr v)"
| "dict_get _ k d = Inl AttributeError"

fun str_lower :: "ucd \<Rightarrow> json \<Rightarrow> py_exception + ustring" where
  \<comment> \<open>\<open>v.lower()\<close>: only a \<open>str\<close> has the method\<close>
  "str_lower u (JStr s) = Inr (py_lower u s)"
| "str_lower u _ = Inl AttributeError"

fun the_str :: "json \<Rightarrow> ustring" where
  "the_str (JStr s) = s"
| "the_str _ = []"

definition backend_request :: "ustring \<Rightarrow> http_request" where
  "backend_request text_input =
     \<lparr> meth = POST, url = ''http://localhost:8000/analyze/'',
       payload = FormPayload [(ustr ''text'', text_input)], timeout = 45 \<rparr>"

definition sentiment_box :: "ustring \<Rightarrow> ustring \<Rightarrow> ui" where
  \<comment> \<open>lines 145 to 165: the class of the box from \<open>sentiment_lower\<close>\<close>
  "sentiment_box sentiment_lower sentiment_str =
     (if sentiment_lower = ustr ''positive'' then StMarkdown ''sentiment-positive'' sentiment_str
      else if sentiment_lower = ustr ''negative'' then StMarkdown ''sentiment-negative'' sentiment_str
      else StMarkdown ''sentiment-neutral'' sentiment_str)"

definition show_result :: "ucd \<Rightarrow> http_response \<Rightarrow> ustring \<Rightarrow> ui list \<times> py_exception option" where
  \<comment> \<open>lines 136 to 176: the elements shown, and the exception that ended the block if any\<close>
  "show_result u response text_input =
     (if status_code response = 200 then
        (case response_json response of
           Inl e \<Rightarrow> ([], Some e)
         | Inr reply \<Rightarrow>
             (case dict_get reply (ustr ''sentiment'') (JStr (ustr ''Unknown'')) of
                Inl e \<Rightarrow> ([], Some e)
              | Inr sentiment_val \<Rightarrow>
                  (case str_lower u sentiment_val of
                     Inl e \<Rightarrow> ([StSuccess ''Analysis complete!''], Some e)
                   | Inr sentiment_lower \<Rightarrow>
                       ([StSuccess ''Analysis complete!'',
                         sentiment_box sentiment_lower (the_str sentiment_val),
                         StExpander (length text_input) (dict_lookup reply (ustr ''raw_response''))],
                        None))))
      else
        (case response_json response of
           Inl e \<Rightarrow> ([], Some e)
         | Inr v \<Rightarrow>
             (case dict_get v (ustr ''detail'') (JStr (ustr ''Unknown error'')) of
                Inl e \<Rightarrow> ([], Some e)
              | Inr error_detail \<Rightarrow> ([StErrorDetail error_detail], None))))"

definition show_exception :: "py_exception \<Rightarrow> ui" where
  \<comment> \<open>the three handlers of lines 178 to 183\<close>
  "show_exception e =
     (if e = Timeout
      then StError ''Request timed out. The model might be taking longer than expected.''
      else if e = ConnectionError
      then StError
        ''Cannot connect to the backend API. Make sure the FastAPI server is running on localhost:8000''
      else StErrorUnexpected e)"

definition analyze_button :: "ucd \<Rightarrow> net \<Rightarrow> ustring \<Rightarrow> http_request list \<times> ui list" where
  \<comment> \<open>lines 121 to 183: a press of the button\<close>
  "analyze_button u net text_input =
     (if py_strip text_input = [] then ([], [StError ''Please enter some text to analyze!''])
      else
        (let req = backend_request text_input in
         ([req],
          (case net req of
             Raises e \<Rightarrow> [show_exception e]
           | Returns response \<Rightarrow>
               (case show_result u response text_input of
                  (shown, None) \<Rightarrow> shown
                | (shown, Some e) \<Rightarrow> shown @ [show_exception e])))))"

section \<open>The process launcher: \<open>start_app.py\<close>\<close>

datatype service = Backend | Frontend

datatype signal_kind = SIGTERM | CTRL_BREAK_EVENT

datatype action =
    Popen service
  | Sleep nat
  | HttpGet string nat
  | SendSignal service signal_kind
  | Wait service "nat option"
  | Kill service

datatype wait_result = Exited | TimeoutExpired | WaitRaises

text \<open>How a child answers the calls of \<open>stop_services\<close>.\<close>

record child =
  signal_raises :: bool
  wait5 :: wait_result
  kill_raises :: bool
  wait_raises :: bool

record app_starter =
  backend_process :: "child option"
  frontend_process :: "child option"
  running :: bool

definition init_starter :: app_starter where
  "init_starter = \<lparr> backend_process = None, frontend_process = None, running = True \<rparr>"

definition responds_ok :: "http_outcome \<Rightarrow> bool" where
  \<comment> \<open>the request returned, with status 200; an exception is swallowed by the bare \<open>except\<close>\<close>
  "responds_ok out = (case out of Raises e \<Rightarrow> False | Returns response \<Rightarrow> status_code response = 200)"

definition root_get :: action where
  \<comment> \<open>\<open>requests.get("http://localhost:8000/", timeout=2)\<close>\<close>
  "root_get = HttpGet ''http://localhost:8000/'' 2"

fun poll_backend :: "(nat \<Rightarrow> http_outcome) \<Rightarrow> nat \<Rightarrow> nat \<Rightarrow> action list \<times> bool" where
  \<comment> \<open>the loop of \<open>wait_for_backend\<close>: attempt \<open>i\<close>, with the number of attempts left\<close>
  "poll_backend probe i 0 = ([], False)"
| "poll_backend probe i (Suc n) =
     (if responds_ok (probe i) then ([root_get], True)
      else (case poll_backend probe (Suc i) n of (acts, r) \<Rightarrow> (root_get # Sleep 1 # acts, r)))"

definition wait_for_backend :: "(nat \<Rightarrow> http_outcome) \<Rightarrow> action list \<times> bool" where
  "wait_for_backend probe = poll_backend probe 0 30"

definition stop_process :: "bool \<Rightarrow> service \<Rightarrow> child \<Rightarrow> action list" where
  \<comment> \<open>one of the two blocks of \<open>stop_services\<close>; the first argument says whether the
      platform is Windows\<close>
  "stop_process windows svc ch =
     (let graceful = SendSignal svc (if windows then CTRL_BREAK_EVENT else SIGTERM) in
      if signal_raises ch then [graceful, Kill svc]
      else
        (case wait5 ch of
           Exited \<Rightarrow> [graceful, Wait svc (Some 5)]
         | WaitRaises \<Rightarrow> [graceful, Wait svc (Some 5), Kill svc]
         | TimeoutExpired \<Rightarrow>
             if kill_raises ch then [graceful, Wait svc (Some 5), Kill svc, Kill svc]
             else if wait_raises ch
             then [graceful, Wait svc (Some 5), Kill svc, Wait svc None, Kill svc]
             else [graceful, Wait svc (Some 5), Kill svc, Wait svc None]))"

definition stop_services :: "bool \<Rightarrow> app_starter \<Rightarrow> action list" where
  "stop_services windows st =
     (case backend_process st of None \<Rightarrow> [] | Some ch \<Rightarrow> stop_process windows Backend ch)
     @ (case frontend_process st of None \<Rightarrow> [] | Some ch \<Rightarrow> stop_process windows Frontend ch)"

datatype start_outcome = PopenRaises | DiedEarly child | Started child

definition start_backend :: "start_outcome \<Rightarrow> app_starter \<Rightarrow> action list \<times> bool \<times> app_starter" where
  "start_backend out st =
     (case out of
        PopenRaises \<Rightarrow> ([Popen Backend], False, st)
      | DiedEarly ch \<Rightarrow> ([Popen Backend, Sleep 3], False, st\<lparr>backend_process := Some ch\<rparr>)
      | Started ch \<Rightarrow> ([Popen Backend, Sleep 3], True, st\<lparr>backend_process := Some ch\<rparr>))"

definition start_frontend :: "start_outcome \<Rightarrow> app_starter \<Rightarrow> action list \<times> bool \<times> app_starter" where
  "start_frontend out st =
     (case out of
        PopenRaises \<Rightarrow> ([Popen Frontend], False, st)
      | DiedEarly ch \<Rightarrow> ([Popen Frontend, Sleep 4], False, st\<lparr>frontend_process := Some ch\<rparr>)
      | Started ch \<Rightarrow> ([Popen Frontend, Sleep 4], True, st\<lparr>frontend_process := Some ch\<rparr>))"

text \<open>
  What one round of the monitoring loop of \<open>run\<close> observes after its sleep: both children
  alive, one of them dead, or the signal handler called.
\<close>

datatype tick = Alive | BackendDead | FrontendDead | Signalled

datatype loop_end = Broken | Handler

fun monitor :: "tick list \<Rightarrow> action list \<times> loop_end option" where
  \<comment> \<open>the loop of lines 286 to 296 over the rounds observed; \<open>None\<close> when it is still
      running after the last of them\<close>
  "monitor [] = ([], None)"
| "monitor (Alive # ts) = (case monitor ts of (acts, r) \<Rightarrow> (Sleep 1 # acts, r))"
| "monitor (BackendDead # ts) = ([Sleep 1], Some Broken)"
| "monitor (FrontendDead # ts) = ([Sleep 1], Some Broken)"
| "monitor (Signalled # ts) = ([Sleep 1], Some Handler)"

datatype run_result = Returned bool | SysExit nat

record launcher_env =
  windows :: bool
  requirements_ok :: bool
  backend_start :: start_outcome
  probe :: "nat \<Rightarrow> http_outcome"
  frontend_start :: start_outcome
  ticks :: "tick list"

definition run :: "launcher_env \<Rightarrow> action list \<times> run_result option" where
  \<comment> \<open>\<open>AppStarter.run\<close>; the outcome of \<open>check_requirements\<close> is taken from the environment\<close>
  "run env =
     (if \<not> requirements_ok env then ([], Some (Returned False))
      else
        (case start_backend (backend_start env) init_starter of
           (a1, ok1, st1) \<Rightarrow>
             if \<not> ok1 then (a1, Some (Returned False))
             else
               (case wait_for_backend (probe env) of
                  (a2, ready) \<Rightarrow>
                    if \<not> ready
                    then (a1 @ a2 @ stop_services (windows env) st1, Some (Returned False))
                    else
                      (case start_frontend (frontend_start env) st1 of
                         (a3, ok3, st3) \<Rightarrow>
                           if \<not> ok3
                           then (a1 @ a2 @ a3 @ stop_services (windows env) st3,
                                 Some (Returned False))
                           else
                             (case monitor (ticks env) of
                                (a4, None) \<Rightarrow> (a1 @ a2 @ a3 @ a4, None)
                              | (a4, Some Broken) \<Rightarrow>
                                  (a1 @ a2 @ a3 @ a4 @ stop_services (windows env) st3,
                                   Some (Returned True))
                              | (a4, Some Handler) \<Rightarrow>
                                  (a1 @ a2 @ a3 @ a4 @ stop_services (windows env) st3,
                                   Some (SysExit 0)))))))"

subsection \<open>Sample children and a sample run\<close>

definition quiet_child :: child where
  \<comment> \<open>exits on the first signal\<close>
  "quiet_child = \<lparr> signal_raises = False, wait5 = Exited, kill_raises = False, wait_raises = False \<rparr>"

definition stubborn_child :: child where
  \<comment> \<open>ignores the signal and is still running after five seconds\<close>
  "stubborn_child =
     \<lparr> signal_raises = False, wait5 = TimeoutExpired, kill_raises = False, wait_raises = False \<rparr>"

definition deaf_child :: child where
  \<comment> \<open>sending it the signal raises an error\<close>
  "deaf_child = \<lparr> signal_raises = True, wait5 = Exited, kill_raises = False, wait_raises = False \<rparr>"

definition up_after :: "nat \<Rightarrow> nat \<Rightarrow> http_outcome" where
  \<comment> \<open>the API service refuses the first \<open>n\<close> attempts and answers from then on\<close>
  "up_after n i = (if i < n then Raises ConnectionError else ok_reply (JObj [(ustr ''message'', JStr (ustr ''ok''))]))"

definition demo_env :: launcher_env where
  "demo_env =
     \<lparr> windows = False, requirements_ok = True, backend_start = Started quiet_child,
       probe = up_after 2, frontend_start = Started stubborn_child,
       ticks = [Alive, Alive, Signalled] \<rparr>"


section \<open>Facts about the string operations\<close>

lemma split_from_shape:
  "\<exists>rest. split_from sep acc s = (rev acc @ takeWhile (\<lambda>c. c \<noteq> sep) s) # rest"
proof (induction s arbitrary: acc)
  case Nil
  show ?case by simp
next
  case (Cons a s)
  show ?case
  proof (cases "a = sep")
    case True
    then show ?thesis by simp
  next
    case False
    then show ?thesis using Cons [of "a # acc"] by simp
  qed
qed

lemma index0_py_split: "index0 (py_split sep s) = Inr (takeWhile (\<lambda>c. c \<noteq> sep) s)"
proof -
  obtain rest where "split_from sep [] s = takeWhile (\<lambda>c. c \<noteq> sep) s # rest"
    using split_from_shape [of sep "[]" s] by auto
  then show ?thesis by (simp add: index0_def py_split_def)
qed

text \<open>
  On a string of ASCII code points only the ASCII part of the tables is read, so any
  tables that give ASCII its case mappings compute what \<open>ascii_ucd\<close> computes.
\<close>

lemma lower_ucs4_ascii:
  "ascii_cases u \<Longrightarrow> c < 0x80 \<Longrightarrow> lower_ucs4 u pre c post = lower_ucs4 ascii_ucd pre' c post'"
  by (simp add: lower_ucs4_def ascii_cases_def)

lemma lower_from_ascii:
  "ascii_cases u \<Longrightarrow> is_ascii s \<Longrightarrow> lower_from u pre s = lower_from ascii_ucd pre' s"
proof (induction s arbitrary: pre pre')
  case Nil
  show ?case by simp
next
  case (Cons c cs)
  then have c: "c < 0x80" and cs: "is_ascii cs" by (simp_all add: is_ascii_def)
  from lower_ucs4_ascii [OF Cons.prems(1) c, of pre cs pre' cs]
       Cons.IH [OF Cons.prems(1) cs, of "c # pre" "c # pre'"]
  show ?case by simp
qed

lemma title_from_ascii:
  "ascii_cases u \<Longrightarrow> is_ascii s \<Longrightarrow> title_from u pre prev s = title_from ascii_ucd pre' prev s"
proof (induction s arbitrary: pre pre' prev)
  case Nil
  show ?case by simp
next
  case (Cons c cs)
  then have c: "c < 0x80" and cs: "is_ascii cs" by (simp_all add: is_ascii_def)
  have t: "to_title_full u c = to_title_full ascii_ucd c" and k: "is_cased u c = is_cased ascii_ucd c"
    using Cons.prems(1) c by (simp_all add: ascii_cases_def)
  from lower_ucs4_ascii [OF Cons.prems(1) c, of pre cs pre' cs] t k
       Cons.IH [OF Cons.prems(1) cs, of "c # pre" "is_cased ascii_ucd c" "c # pre'"]
  show ?case by simp
qed

lemma py_lower_ascii: "ascii_cases u \<Longrightarrow> is_ascii s \<Longrightarrow> py_lower u s = py_lower ascii_ucd s"
  using lower_from_ascii [of u s "[]" "[]"] by (simp add: py_lower_def)

lemma py_title_ascii: "ascii_cases u \<Longrightarrow> is_ascii s \<Longrightarrow> py_title u s = py_title ascii_ucd s"
  using title_from_ascii [of u s "[]" False "[]"] by (simp add: py_title_def)



lemma labels_are_ascii:
  "is_ascii (ustr ''Positive'')" "is_ascii (ustr ''Negative'')" "is_ascii (ustr ''Neutral'')"
  "is_ascii (ustr ''Unknown'')"
  by code_simp+


section \<open>The normalization\<close>

lemma normalize_eq: "normalize u raw = Inr (normalize_spec u raw)"
  by (auto simp: normalize_def normalize_spec_def index0_py_split first_line_def Let_def
      valid_sentiments_def)

lemma normalize_spec_label:
  "normalize_spec u raw = ustr ''Positive'' \<or> normalize_spec u raw = ustr ''Negative''
   \<or> normalize_spec u raw = ustr ''Neutral''"
  by (auto simp: normalize_spec_def Let_def)

section \<open>The analyze operation\<close>

lemma analyze_try_sent: "sent (analyze_try u net lg txt) = [ollama_request txt]"
  by (simp add: analyze_try_def Let_def split: http_outcome.splits sum.splits)

lemma analyze_try_success:
  "result (analyze_try u net lg txt) = Inr r \<longleftrightarrow>
     (\<exists>resp kvs s. net (ollama_request txt) = Returns resp \<and> status_code resp = 200 \<and>
        body resp = Some (JObj kvs) \<and> map_of kvs (ustr ''response'') = Some (JStr s) \<and>
        r = \<lparr> sentiment = normalize_spec u (py_strip s), text_echo = txt, raw_response = py_strip s \<rparr>)"
proof (cases "net (ollama_request txt)")
  case (Raises e)
  then show ?thesis by (simp add: analyze_try_def Let_def)
next
  case (Returns resp)
  show ?thesis
  proof (cases "status_code resp = 200")
    case False
    with Returns show ?thesis by (simp add: analyze_try_def Let_def)
  next
    case True
    show ?thesis
    proof (cases "body resp")
      case None
      with Returns True show ?thesis by (simp add: analyze_try_def Let_def response_json_def)
    next
      case (Some v)
      show ?thesis
      proof (cases v)
        case (JObj kvs)
        show ?thesis
        proof (cases "map_of kvs (ustr ''response'')")
          case None
          with Returns True Some JObj show ?thesis
            by (simp add: analyze_try_def Let_def response_json_def)
        next
          case (Some w)
          with Returns True \<open>body resp = Some v\<close> JObj show ?thesis
            by (cases w) (auto simp: analyze_try_def Let_def response_json_def normalize_eq)
        qed
      qed (use Returns True Some in \<open>simp_all add: analyze_try_def Let_def response_json_def\<close>)
    qed
  qed
qed

lemma analyze_try_log: "result (analyze_try u net lg txt) = result (analyze_try u net lg' txt)"
  by (simp add: analyze_try_def Let_def split: http_outcome.splits sum.splits)

lemma analyze_sentiment_sent:
  "sent (analyze_sentiment u net lg txt) = (if py_strip txt = [] then [] else [ollama_request txt])"
  by (simp add: analyze_sentiment_def Let_def analyze_try_sent split: sum.splits)

lemma analyze_sentiment_success:
  "result (analyze_sentiment u net lg txt) = Inr r \<longleftrightarrow>
     py_strip txt \<noteq> [] \<and> result (analyze_try u net lg txt) = Inr r"
  by (auto simp: analyze_sentiment_def Let_def split: sum.splits)

lemma analyze_sentiment_failure:
  "py_strip txt \<noteq> [] \<Longrightarrow> result (analyze_sentiment u net lg txt) = Inl e \<Longrightarrow>
     \<exists>d. e = HTTPException 500 d"
  by (auto simp: analyze_sentiment_def analyze_except_def Let_def split: sum.splits if_splits)

lemma analyze_sentiment_log:
  "result (analyze_sentiment u net lg txt) = result (analyze_sentiment u net lg' txt)"
  using analyze_try_log [of u net lg "txt" lg']
  by (simp add: analyze_sentiment_def Let_def split: sum.splits)

lemma analyze_sentiment_net:
  "net1 (ollama_request txt) = net2 (ollama_request txt) \<Longrightarrow>
     analyze_sentiment u net1 lg txt = analyze_sentiment u net2 lg txt"
  by (simp add: analyze_sentiment_def analyze_try_def Let_def)

lemma serve_isolated:
  "snd (serve u lg reqs) = map (\<lambda>(net, txt). result (analyze_sentiment u net [] txt)) reqs"
proof (induction reqs arbitrary: lg)
  case Nil
  show ?case by simp
next
  case (Cons a reqs)
  obtain net t where a: "a = (net, t)" by (cases a)
  from Cons [of "logged (analyze_sentiment u net lg t)"] a
       analyze_sentiment_log [of u net lg t "[]"]
  show ?case by (simp add: Let_def split_beta)
qed

lemma has_string_response_iff:
  "has_string_response out \<longleftrightarrow>
     (\<exists>resp kvs s. out = Returns resp \<and> status_code resp = 200 \<and>
        body resp = Some (JObj kvs) \<and> map_of kvs (ustr ''response'') = Some (JStr s))"
proof (cases out)
  case (Raises e)
  then show ?thesis by (simp add: has_string_response_def)
next
  case (Returns resp)
  show ?thesis
  proof (cases "body resp")
    case None
    with Returns show ?thesis by (simp add: has_string_response_def)
  next
    case (Some v)
    show ?thesis
    proof (cases v)
      case (JObj kvs)
      show ?thesis
      proof (cases "map_of kvs (ustr ''response'')")
        case None
        with Returns Some JObj show ?thesis by (simp add: has_string_response_def)
      next
        case (Some w)
        with Returns \<open>body resp = Some v\<close> JObj show ?thesis
          by (cases w) (simp_all add: has_string_response_def)
      qed
    qed (use Returns Some in \<open>simp_all add: has_string_response_def\<close>)
  qed
qed

text \<open>
  Claim C1. Whatever string the normalization is given, it returns one of the labels
  \<open>Positive\<close>, \<open>Negative\<close> and \<open>Neutral\<close>, and every successful result of
  \<open>analyze_sentiment\<close> carries one of these three in its \<open>sentiment\<close> field. This
  holds for any case tables.
\<close>

theorem three_labels:
  "(\<exists>l. normalize u raw = Inr l
        \<and> (l = ustr ''Positive'' \<or> l = ustr ''Negative'' \<or> l = ustr ''Neutral''))
   \<and> (result (analyze_sentiment u net lg txt) = Inr r \<longrightarrow>
        sentiment r = ustr ''Positive'' \<or> sentiment r = ustr ''Negative''
        \<or> sentiment r = ustr ''Neutral'')"
proof
  show "\<exists>l. normalize u raw = Inr l
        \<and> (l = ustr ''Positive'' \<or> l = ustr ''Negative'' \<or> l = ustr ''Neutral'')"
    using normalize_spec_label [of u raw] by (simp add: normalize_eq)
next
  show "result (analyze_sentiment u net lg txt) = Inr r \<longrightarrow>
        sentiment r = ustr ''Positive'' \<or> sentiment r = ustr ''Negative''
        \<or> sentiment r = ustr ''Neutral''"
  proof
    assume "result (analyze_sentiment u net lg txt) = Inr r"
    then obtain s where "r = \<lparr> sentiment = normalize_spec u (py_strip s), text_echo = txt,
                                raw_response = py_strip s \<rparr>"
      unfolding analyze_sentiment_success analyze_try_success by blast
    then show "sentiment r = ustr ''Positive'' \<or> sentiment r = ustr ''Negative''
        \<or> sentiment r = ustr ''Neutral''"
      using normalize_spec_label [of u "py_strip s"] by simp
  qed
qed

theorem three_labels_witness:
  "sentiment \<lparr> sentiment = ustr ''Positive'', text_echo = ustr ''I love it'',
               raw_response = ustr ''I think it is POSITIVE overall'' \<rparr> = ustr ''Positive''
   \<or> sentiment \<lparr> sentiment = ustr ''Positive'', text_echo = ustr ''I love it'',
               raw_response = ustr ''I think it is POSITIVE overall'' \<rparr> = ustr ''Negative''
   \<or> sentiment \<lparr> sentiment = ustr ''Positive'', text_echo = ustr ''I love it'',
               raw_response = ustr ''I think it is POSITIVE overall'' \<rparr> = ustr ''Neutral''"
proof -
  have h: "result (analyze_sentiment ascii_ucd
             (always (ok_reply (JObj [(ustr ''response'',
                JStr (ustr '' I think it is POSITIVE overall''))])))
             [] (ustr ''I love it''))
           = Inr \<lparr> sentiment = ustr ''Positive'', text_echo = ustr ''I love it'',
                   raw_response = ustr ''I think it is POSITIVE overall'' \<rparr>"
    by code_simp
  from three_labels [THEN conjunct2, THEN mp, OF h] show ?thesis .
qed

text \<open>
  Claim C2, amended. The reply of the inference service is stripped as a whole first; the
  normalization then follows the procedure of the specification on the stripped reply:
  its first line is stripped and title-cased; when that is one of the three labels it is
  kept, otherwise it is lower-cased and searched for \<open>positive\<close>, then for
  \<open>negative\<close>, with \<open>Neutral\<close> as the last resort. The stripped reply is what comes
  back as \<open>raw_response\<close>. On a reply that begins with a line break the procedure
  applied to the reply as it came would take the empty first line and answer
  \<open>Neutral\<close>.
\<close>

theorem first_line_of_stripped_reply:
  "normalize u raw = Inr (normalize_spec u raw)
   \<and> (result (analyze_sentiment u net lg txt) = Inr r \<longrightarrow>
        (\<exists>resp kvs reply. net (ollama_request txt) = Returns resp
            \<and> body resp = Some (JObj kvs)
            \<and> map_of kvs (ustr ''response'') = Some (JStr reply)
            \<and> sentiment r = normalize_spec u (py_strip reply)
            \<and> raw_response r = py_strip reply))"
proof
  show "normalize u raw = Inr (normalize_spec u raw)" by (rule normalize_eq)
next
  show "result (analyze_sentiment u net lg txt) = Inr r \<longrightarrow>
        (\<exists>resp kvs reply. net (ollama_request txt) = Returns resp
            \<and> body resp = Some (JObj kvs)
            \<and> map_of kvs (ustr ''response'') = Some (JStr reply)
            \<and> sentiment r = normalize_spec u (py_strip reply)
            \<and> raw_response r = py_strip reply)"
  proof
    assume "result (analyze_sentiment u net lg txt) = Inr r"
    then obtain resp kvs s where "net (ollama_request txt) = Returns resp"
        "body resp = Some (JObj kvs)" "map_of kvs (ustr ''response'') = Some (JStr s)"
        "r = \<lparr> sentiment = normalize_spec u (py_strip s), text_echo = txt,
               raw_response = py_strip s \<rparr>"
      unfolding analyze_sentiment_success analyze_try_success by blast
    then show "\<exists>resp kvs reply. net (ollama_request txt) = Returns resp
            \<and> body resp = Some (JObj kvs)
            \<and> map_of kvs (ustr ''response'') = Some (JStr reply)
            \<and> sentiment r = normalize_spec u (py_strip reply)
            \<and> raw_response r = py_strip reply"
      by auto
  qed
qed

theorem first_line_of_stripped_reply_witness:
  "\<exists>resp kvs reply.
      always (ok_reply (JObj [(ustr ''response'',
         JStr (ustr ''  Mostly negative.'' @ [newline] @ ustr ''Though positive at times ''))]))
        (ollama_request (ustr ''Bad day'')) = Returns resp
      \<and> body resp = Some (JObj kvs)
      \<and> map_of kvs (ustr ''response'') = Some (JStr reply)
      \<and> sentiment \<lparr> sentiment = ustr ''Negative'', text_echo = ustr ''Bad day'',
            raw_response = ustr ''Mostly negative.'' @ [newline] @ ustr ''Though positive at times'' \<rparr>
          = normalize_spec ascii_ucd (py_strip reply)
      \<and> raw_response \<lparr> sentiment = ustr ''Negative'', text_echo = ustr ''Bad day'',
            raw_response = ustr ''Mostly negative.'' @ [newline] @ ustr ''Though positive at times'' \<rparr>
          = py_strip reply"
proof -
  have h: "result (analyze_sentiment ascii_ucd
             (always (ok_reply (JObj [(ustr ''response'',
                JStr (ustr ''  Mostly negative.'' @ [newline] @ ustr ''Though positive at times ''))])))
             [] (ustr ''Bad day''))
           = Inr \<lparr> sentiment = ustr ''Negative'', text_echo = ustr ''Bad day'',
                   raw_response = ustr ''Mostly negative.'' @ [newline] @ ustr ''Though positive at times'' \<rparr>"
    by code_simp
  from first_line_of_stripped_reply [THEN conjunct2, THEN mp, OF h] show ?thesis .
qed

theorem leading_newline_reply:
  "normalize_spec ascii_ucd ([newline] @ ustr ''Negative'') = ustr ''Neutral''
   \<and> result (analyze_sentiment ascii_ucd
        (always (ok_reply (JObj [(ustr ''response'', JStr ([newline] @ ustr ''Negative''))])))
        [] (ustr ''Bad day''))
     = Inr \<lparr> sentiment = ustr ''Negative'', text_echo = ustr ''Bad day'',
             raw_response = ustr ''Negative'' \<rparr>"
proof
  show "normalize_spec ascii_ucd ([newline] @ ustr ''Negative'') = ustr ''Neutral''"
    by code_simp
next
  show "result (analyze_sentiment ascii_ucd
        (always (ok_reply (JObj [(ustr ''response'', JStr ([newline] @ ustr ''Negative''))])))
        [] (ustr ''Bad day''))
     = Inr \<lparr> sentiment = ustr ''Negative'', text_echo = ustr ''Bad day'',
             raw_response = ustr ''Negative'' \<rparr>"
    by code_simp
qed



text \<open>
  Claim C9. A text that is empty once stripped is refused with the error 400
  \<open>Text cannot be empty\<close>; no request is sent to the inference service and nothing is
  logged.
\<close>

theorem empty_text_rejected:
  "py_strip txt = [] \<Longrightarrow>
     analyze_sentiment u net lg txt
       = \<lparr> logged = lg, sent = [], result = Inl (HTTPException 400 ''Text cannot be empty'') \<rparr>"
  by (simp add: analyze_sentiment_def)

theorem empty_text_rejected_witness:
  "analyze_sentiment ascii_ucd (always (ok_reply (JObj [(ustr ''response'', JStr (ustr ''Positive''))])))
     [] [0x20, 0xA0, newline, 0x3000, 0x09]
     = \<lparr> logged = [], sent = [], result = Inl (HTTPException 400 ''Text cannot be empty'') \<rparr>"
proof -
  have h: "py_strip [0x20, 0xA0, newline, 0x3000, 0x09] = []" by code_simp
  from empty_text_rejected [OF h] show ?thesis .
qed

text \<open>
  Claim C4, amended. For a text that is not empty once stripped, one call of
  \<open>analyze_sentiment\<close> sends exactly one request, a POST to the generate endpoint with a
  timeout of 30 seconds, whatever the service answers. A text that is not empty but
  consists of whitespace sends none.
\<close>

theorem one_request_per_call:
  "py_strip txt \<noteq> [] \<Longrightarrow>
     sent (analyze_sentiment u net lg txt) = [ollama_request txt]
     \<and> meth (ollama_request txt) = POST
     \<and> url (ollama_request txt) = ''http://localhost:11434/api/generate''
     \<and> timeout (ollama_request txt) = 30"
  by (simp add: analyze_sentiment_sent) (simp add: ollama_request_def)

theorem one_request_per_call_witness:
  "sent (analyze_sentiment ascii_ucd (always (Raises Timeout)) [] (ustr ''fine''))
       = [ollama_request (ustr ''fine'')]
     \<and> meth (ollama_request (ustr ''fine'')) = POST
     \<and> url (ollama_request (ustr ''fine'')) = ''http://localhost:11434/api/generate''
     \<and> timeout (ollama_request (ustr ''fine'')) = 30"
proof -
  have h: "py_strip (ustr ''fine'') \<noteq> []" by code_simp
  from one_request_per_call [OF h] show ?thesis .
qed

theorem blank_text_sends_nothing:
  "ustr '' '' \<noteq> []
   \<and> sent (analyze_sentiment ascii_ucd
        (always (ok_reply (JObj [(ustr ''response'', JStr (ustr ''Positive''))]))) [] (ustr '' ''))
     = []"
proof
  show "ustr '' '' \<noteq> []" by (simp add: ustr_def)
next
  have "py_strip (ustr '' '') = []" by code_simp
  then show "sent (analyze_sentiment ascii_ucd
        (always (ok_reply (JObj [(ustr ''response'', JStr (ustr ''Positive''))]))) [] (ustr '' ''))
     = []"
    by (simp add: analyze_sentiment_sent)
qed

text \<open>
  Claim C5, amended. For a text that is not empty once stripped, \<open>analyze_sentiment\<close>
  succeeds exactly when the request completes with status 200 and a JSON body that is an
  object whose \<open>response\<close> field is a string; in every other case it fails with the
  error 500 and gives no sentiment, and nothing is tried again: the one request is all
  that is sent. The field being present is not enough, and a text of whitespace alone is
  answered with the error 400.
\<close>

theorem success_needs_string_response:
  "py_strip txt \<noteq> [] \<Longrightarrow>
     ((\<exists>r. result (analyze_sentiment u net lg txt) = Inr r)
        \<longleftrightarrow> has_string_response (net (ollama_request txt)))
     \<and> (\<not> has_string_response (net (ollama_request txt)) \<longrightarrow>
          (\<exists>d. result (analyze_sentiment u net lg txt) = Inl (HTTPException 500 d)))
     \<and> sent (analyze_sentiment u net lg txt) = [ollama_request txt]"
proof -
  assume ne: "py_strip txt \<noteq> []"
  have iff: "(\<exists>r. result (analyze_sentiment u net lg txt) = Inr r)
        \<longleftrightarrow> has_string_response (net (ollama_request txt))"
    using ne unfolding analyze_sentiment_success analyze_try_success has_string_response_iff by blast
  have "\<exists>d. result (analyze_sentiment u net lg txt) = Inl (HTTPException 500 d)"
    if "\<not> has_string_response (net (ollama_request txt))"
  proof (cases "result (analyze_sentiment u net lg txt)")
    case (Inl e)
    with analyze_sentiment_failure [OF ne Inl] show ?thesis by auto
  next
    case (Inr r)
    with iff that show ?thesis by blast
  qed
  moreover have "sent (analyze_sentiment u net lg txt) = [ollama_request txt]"
    using ne by (simp add: analyze_sentiment_sent)
  ultimately show ?thesis using iff by blast
qed

theorem success_needs_string_response_witness:
  "((\<exists>r. result (analyze_sentiment ascii_ucd (always (Returns \<lparr> status_code = 503, body = None \<rparr>))
             [] (ustr ''fine'')) = Inr r)
      \<longleftrightarrow> has_string_response
            (always (Returns \<lparr> status_code = 503, body = None \<rparr>) (ollama_request (ustr ''fine''))))
   \<and> (\<exists>d. result (analyze_sentiment ascii_ucd (always (Returns \<lparr> status_code = 503, body = None \<rparr>))
             [] (ustr ''fine''))
          = Inl (HTTPException 500 d))
   \<and> sent (analyze_sentiment ascii_ucd (always (Returns \<lparr> status_code = 503, body = None \<rparr>))
             [] (ustr ''fine''))
        = [ollama_request (ustr ''fine'')]"
proof -
  have h: "py_strip (ustr ''fine'') \<noteq> []" by code_simp
  have n: "\<not> has_string_response
              (always (Returns \<lparr> status_code = 503, body = None \<rparr>) (ollama_request (ustr ''fine'')))"
    by (simp add: has_string_response_def always_def)
  from success_needs_string_response
         [OF h, of ascii_ucd "always (Returns \<lparr> status_code = 503, body = None \<rparr>)" "[]"] n
  show ?thesis by blast
qed

theorem numeric_response_field_fails:
  "has_response_field (always (ok_reply (JObj [(ustr ''response'', JNum 5)]))
       (ollama_request (ustr ''good'')))
   \<and> result (analyze_sentiment ascii_ucd (always (ok_reply (JObj [(ustr ''response'', JNum 5)])))
        [] (ustr ''good''))
       = Inl (HTTPException 500 ''An unexpected error occurred'')
   \<and> ustr '' '' \<noteq> []
   \<and> result (analyze_sentiment ascii_ucd
        (always (ok_reply (JObj [(ustr ''response'', JStr (ustr ''Positive''))]))) [] (ustr '' ''))
       = Inl (HTTPException 400 ''Text cannot be empty'')"
proof (intro conjI)
  show "has_response_field (always (ok_reply (JObj [(ustr ''response'', JNum 5)]))
       (ollama_request (ustr ''good'')))"
    by (simp add: has_response_field_def always_def ok_reply_def)
next
  have ne: "py_strip (ustr ''good'') \<noteq> []" by code_simp
  show "result (analyze_sentiment ascii_ucd (always (ok_reply (JObj [(ustr ''response'', JNum 5)])))
        [] (ustr ''good''))
       = Inl (HTTPException 500 ''An unexpected error occurred'')"
    using ne by (simp add: analyze_sentiment_def analyze_try_def Let_def always_def ok_reply_def
        response_json_def analyze_except_def)
next
  show "ustr '' '' \<noteq> []" by (simp add: ustr_def)
next
  have "py_strip (ustr '' '') = []" by code_simp
  then show "result (analyze_sentiment ascii_ucd
        (always (ok_reply (JObj [(ustr ''response'', JStr (ustr ''Positive''))]))) [] (ustr '' ''))
       = Inl (HTTPException 400 ''Text cannot be empty'')"
    by (simp add: analyze_sentiment_def)
qed

text \<open>
  Claim C8. The result of \<open>analyze_sentiment\<close> depends only on the text and on the
  answer of the inference service to the request built from it. It does not depend on
  the log, the one thing the service keeps between requests, nor on the requests served
  earlier: the last answer of two runs of the service is the same whenever their last
  requests carry the same text and get the same reply. For a string reply the result is
  the label of the stripped reply, the text itself and the stripped reply.
\<close>

theorem no_state_across_requests:
  "net1 (ollama_request txt) = net2 (ollama_request txt) \<Longrightarrow>
     result (analyze_sentiment u net1 lg1 txt) = result (analyze_sentiment u net2 lg2 txt)
     \<and> sent (analyze_sentiment u net1 lg1 txt) = sent (analyze_sentiment u net2 lg2 txt)
     \<and> last (snd (serve u lg1 (earlier1 @ [(net1, txt)])))
         = last (snd (serve u lg2 (earlier2 @ [(net2, txt)])))
     \<and> (py_strip txt \<noteq> [] \<and> net1 (ollama_request txt) = ok_reply (JObj kvs)
          \<and> map_of kvs (ustr ''response'') = Some (JStr reply) \<longrightarrow>
        result (analyze_sentiment u net1 lg1 txt)
          = Inr \<lparr> sentiment = normalize_spec u (py_strip reply), text_echo = txt,
                  raw_response = py_strip reply \<rparr>)"
proof -
  assume same: "net1 (ollama_request txt) = net2 (ollama_request txt)"
  have r: "result (analyze_sentiment u net1 lg1 txt) = result (analyze_sentiment u net2 lg2 txt)"
    using analyze_sentiment_net [of net1 "txt" net2 u lg1, OF same]
          analyze_sentiment_log [of u net2 lg1 "txt" lg2] by simp
  have s: "sent (analyze_sentiment u net1 lg1 txt) = sent (analyze_sentiment u net2 lg2 txt)"
    by (simp add: analyze_sentiment_sent)
  have l: "last (snd (serve u lg1 (earlier1 @ [(net1, txt)])))
         = last (snd (serve u lg2 (earlier2 @ [(net2, txt)])))"
    using analyze_sentiment_net [of net1 "txt" net2 u "[]", OF same]
    by (simp add: serve_isolated)
  have e: "result (analyze_sentiment u net1 lg1 txt)
          = Inr \<lparr> sentiment = normalize_spec u (py_strip reply), text_echo = txt,
                  raw_response = py_strip reply \<rparr>"
    if "py_strip txt \<noteq> [] \<and> net1 (ollama_request txt) = ok_reply (JObj kvs)
          \<and> map_of kvs (ustr ''response'') = Some (JStr reply)"
  proof -
    have "\<exists>resp kvs' s. net1 (ollama_request txt) = Returns resp \<and> status_code resp = 200 \<and>
        body resp = Some (JObj kvs') \<and> map_of kvs' (ustr ''response'') = Some (JStr s) \<and>
        \<lparr> sentiment = normalize_spec u (py_strip reply), text_echo = txt,
          raw_response = py_strip reply \<rparr>
        = \<lparr> sentiment = normalize_spec u (py_strip s), text_echo = txt, raw_response = py_strip s \<rparr>"
      using that by (intro exI [of _ "\<lparr> status_code = 200, body = Some (JObj kvs) \<rparr>"]
                           exI [of _ kvs] exI [of _ reply]) (simp add: ok_reply_def)
    with that show ?thesis
      unfolding analyze_sentiment_success analyze_try_success by blast
  qed
  from r s l e show ?thesis by blast
qed

theorem no_state_across_requests_witness:
  "last (snd (serve ascii_ucd [ErrorRequest Timeout]
           ([(always (Raises Timeout), ustr ''Bad film''), (always (Raises ConnectionError), ustr ''So so'')]
            @ [(always (ok_reply (JObj [(ustr ''response'', JStr (ustr ''Neutral''))])),
                ustr ''The meeting is at 2 PM'')])))
   = last (snd (serve ascii_ucd []
           ([] @ [(only_for (ollama_request (ustr ''The meeting is at 2 PM''))
                      (ok_reply (JObj [(ustr ''response'', JStr (ustr ''Neutral''))])),
                   ustr ''The meeting is at 2 PM'')])))
   \<and> result (analyze_sentiment ascii_ucd
         (always (ok_reply (JObj [(ustr ''response'', JStr (ustr ''Neutral''))])))
         [ErrorRequest Timeout] (ustr ''The meeting is at 2 PM''))
     = Inr \<lparr> sentiment = normalize_spec ascii_ucd (py_strip (ustr ''Neutral'')),
             text_echo = ustr ''The meeting is at 2 PM'',
             raw_response = py_strip (ustr ''Neutral'') \<rparr>"
proof -
  let ?t = "ustr ''The meeting is at 2 PM''"
  let ?kvs = "[(ustr ''response'', JStr (ustr ''Neutral''))]"
  have h: "always (ok_reply (JObj ?kvs)) (ollama_request ?t)
            = only_for (ollama_request ?t) (ok_reply (JObj ?kvs)) (ollama_request ?t)"
    by (simp add: always_def only_for_def)
  have h2: "py_strip ?t \<noteq> [] \<and> always (ok_reply (JObj ?kvs)) (ollama_request ?t) = ok_reply (JObj ?kvs)
          \<and> map_of ?kvs (ustr ''response'') = Some (JStr (ustr ''Neutral''))"
  proof (intro conjI)
    show "py_strip ?t \<noteq> []" by code_simp
    show "always (ok_reply (JObj ?kvs)) (ollama_request ?t) = ok_reply (JObj ?kvs)"
      by (simp add: always_def)
    show "map_of ?kvs (ustr ''response'') = Some (JStr (ustr ''Neutral''))" by simp
  qed
  from no_state_across_requests
    [of "always (ok_reply (JObj ?kvs))" ?t "only_for (ollama_request ?t) (ok_reply (JObj ?kvs))"
        ascii_ucd "[ErrorRequest Timeout]" "[]"
        "[(always (Raises Timeout), ustr ''Bad film''), (always (Raises ConnectionError), ustr ''So so'')]"
        "[]" ?kvs "ustr ''Neutral''", OF h] h2
  show ?thesis by blast
qed

section \<open>The health check\<close>

lemma health_check_sent: "fst (health_check net) = [tags_request]"
  by (simp add: health_check_def)

lemma health_check_raises:
  "net tags_request = Raises e \<Longrightarrow>
     snd (health_check net) = \<lparr> api_status = ''healthy'', ollama_status = ''disconnected'',
                                 mistral_available = False, error = Some e \<rparr>"
  by (simp add: health_check_def health_try_def)

lemma health_check_other_status:
  "net tags_request = Returns resp \<Longrightarrow> status_code resp \<noteq> 200 \<Longrightarrow>
     snd (health_check net) = \<lparr> api_status = ''healthy'', ollama_status = ''error'',
                                 mistral_available = False, error = None \<rparr>"
  by (simp add: health_check_def health_try_def)

lemma health_check_read:
  "net tags_request = Returns resp \<Longrightarrow> status_code resp = 200 \<Longrightarrow> read_models resp = Inr b \<Longrightarrow>
     snd (health_check net) = \<lparr> api_status = ''healthy'', ollama_status = ''connected'',
                                 mistral_available = b, error = None \<rparr>"
  by (simp add: health_check_def health_try_def)

lemma health_check_unread:
  "net tags_request = Returns resp \<Longrightarrow> status_code resp = 200 \<Longrightarrow> read_models resp = Inl e \<Longrightarrow>
     snd (health_check net) = \<lparr> api_status = ''healthy'', ollama_status = ''disconnected'',
                                 mistral_available = False, error = Some e \<rparr>"
  by (simp add: health_check_def health_try_def)

text \<open>
  Claim C6, amended. The health check sends one GET request and always gives a report
  with \<open>api_status\<close> \<open>healthy\<close>. The report says \<open>connected\<close>, with the flag
  \<open>mistral_available\<close>, exactly when the request returned status 200 and its body
  could be read as the list of models; \<open>error\<close> exactly when it returned another
  status; \<open>disconnected\<close> exactly when the request raised an exception or reading
  the body of a reply with status 200 raised one.
\<close>

theorem health_check_report:
  "fst (health_check net) = [tags_request]
   \<and> meth tags_request = GET
   \<and> api_status (snd (health_check net)) = ''healthy''
   \<and> (ollama_status (snd (health_check net)) = ''connected'' \<longleftrightarrow>
        (\<exists>resp b. net tags_request = Returns resp \<and> status_code resp = 200 \<and> read_models resp = Inr b
                  \<and> mistral_available (snd (health_check net)) = b))
   \<and> (ollama_status (snd (health_check net)) = ''error'' \<longleftrightarrow>
        (\<exists>resp. net tags_request = Returns resp \<and> status_code resp \<noteq> 200))
   \<and> (ollama_status (snd (health_check net)) = ''disconnected'' \<longleftrightarrow>
        (\<exists>e. net tags_request = Raises e)
        \<or> (\<exists>resp e. net tags_request = Returns resp \<and> status_code resp = 200 \<and> read_models resp = Inl e))"
proof (cases "net tags_request")
  case (Raises e)
  from health_check_raises [of net e, OF Raises] Raises show ?thesis
    by (simp add: health_check_sent tags_request_def)
next
  case (Returns resp)
  show ?thesis
  proof (cases "status_code resp = 200")
    case False
    from health_check_other_status [of net resp, OF Returns False] Returns False show ?thesis
      by (simp add: health_check_sent tags_request_def)
  next
    case True
    show ?thesis
    proof (cases "read_models resp")
      case (Inl e)
      from health_check_unread [of net resp e, OF Returns True Inl] Returns True Inl show ?thesis
        by (simp add: health_check_sent tags_request_def)
    next
      case (Inr b)
      from health_check_read [of net resp b, OF Returns True Inr] Returns True Inr show ?thesis
        by (simp add: health_check_sent tags_request_def)
    qed
  qed
qed

theorem health_check_report_witness:
  "ollama_status (snd (health_check (always (Returns \<lparr> status_code = 200,
     body = Some (JObj [(ustr ''models'', JArr [JObj [(ustr ''name'', JStr (ustr ''llama3:latest''))],
                                          JObj [(ustr ''name'', JStr (ustr ''mistral:latest''))]])]) \<rparr>)))) = ''connected''"
proof -
  let ?resp = "\<lparr> status_code = 200,
     body = Some (JObj [(ustr ''models'', JArr [JObj [(ustr ''name'', JStr (ustr ''llama3:latest''))],
                                          JObj [(ustr ''name'', JStr (ustr ''mistral:latest''))]])]) \<rparr>"
  have r: "read_models ?resp = Inr True" by code_simp
  have a: "always (Returns ?resp) tags_request = Returns ?resp" by (simp add: always_def)
  have c: "status_code ?resp = 200" by simp
  have m: "mistral_available (snd (health_check (always (Returns ?resp)))) = True"
    using health_check_read [of "always (Returns ?resp)" ?resp True, OF a c r] by simp
  have "\<exists>resp b. always (Returns ?resp) tags_request = Returns resp \<and> status_code resp = 200
          \<and> read_models resp = Inr b \<and> mistral_available (snd (health_check (always (Returns ?resp)))) = b"
    using a c r m by blast
  with health_check_report [of "always (Returns ?resp)"] show ?thesis by blast
qed

theorem health_200_unreadable_body:
  "always (Returns \<lparr> status_code = 200, body = None \<rparr>) tags_request
     = Returns \<lparr> status_code = 200, body = None \<rparr>
   \<and> snd (health_check (always (Returns \<lparr> status_code = 200, body = None \<rparr>)))
     = \<lparr> api_status = ''healthy'', ollama_status = ''disconnected'',
         mistral_available = False, error = Some JSONDecodeError \<rparr>"
  by (simp add: health_check_def health_try_def always_def read_models_def response_json_def)

section \<open>The UI client\<close>

lemma unknown_lower:
  assumes "ascii_cases u"
  shows "py_lower u (ustr ''Unknown'') \<noteq> ustr ''positive''"
    and "py_lower u (ustr ''Unknown'') \<noteq> ustr ''negative''"
proof -
  have "py_lower ascii_ucd (ustr ''Unknown'') \<noteq> ustr ''positive''"
       "py_lower ascii_ucd (ustr ''Unknown'') \<noteq> ustr ''negative''"
    by code_simp+
  with py_lower_ascii [OF assms labels_are_ascii(4)]
  show "py_lower u (ustr ''Unknown'') \<noteq> ustr ''positive''"
    and "py_lower u (ustr ''Unknown'') \<noteq> ustr ''negative''"
    by simp_all
qed

lemma show_result_ok:
  assumes "status_code resp = 200" and "body resp = Some (JObj kvs)"
    and "dict_get (JObj kvs) (ustr ''sentiment'') (JStr (ustr ''Unknown'')) = Inr (JStr s)"
  shows "show_result u resp text_input =
     ([StSuccess ''Analysis complete!'', sentiment_box (py_lower u s) s,
       StExpander (length text_input) (map_of kvs (ustr ''raw_response''))], None)"
  using assms by (simp add: show_result_def response_json_def)

lemma label_names:
  "ustr ''positive'' \<noteq> ustr ''negative''"
  by (simp add: ustr_def)

text \<open>
  Claim C3, amended. After a reply of the API service with status 200 whose body is an
  object with a string \<open>sentiment\<close>, or with none (the label is then \<open>Unknown\<close>), the
  page shows the label in a box whose class is decided by the lower-cased label alone:
  positive exactly when it is \<open>positive\<close>, negative exactly when it is \<open>negative\<close>,
  neutral in every other case, the missing label included.
\<close>

theorem styling_by_lowered_sentiment:
  assumes "py_strip text_input \<noteq> []"
    and "net (backend_request text_input) = Returns resp"
    and "status_code resp = 200"
    and "body resp = Some (JObj kvs)"
    and "(map_of kvs (ustr ''sentiment'') = None \<and> s = ustr ''Unknown'')
         \<or> map_of kvs (ustr ''sentiment'') = Some (JStr s)"
  shows "\<exists>cls. snd (analyze_button u net text_input) =
            [StSuccess ''Analysis complete!'', StMarkdown cls s,
             StExpander (length text_input) (map_of kvs (ustr ''raw_response''))]
          \<and> (cls = ''sentiment-positive'' \<longleftrightarrow> py_lower u s = ustr ''positive'')
          \<and> (cls = ''sentiment-negative'' \<longleftrightarrow> py_lower u s = ustr ''negative'')
          \<and> (cls = ''sentiment-neutral'' \<longleftrightarrow>
               py_lower u s \<noteq> ustr ''positive'' \<and> py_lower u s \<noteq> ustr ''negative'')
          \<and> (ascii_cases u \<and> map_of kvs (ustr ''sentiment'') = None \<longrightarrow> cls = ''sentiment-neutral'')"
proof -
  have g: "dict_get (JObj kvs) (ustr ''sentiment'') (JStr (ustr ''Unknown'')) = Inr (JStr s)"
    using assms(5) by auto
  have shown: "snd (analyze_button u net text_input) =
      [StSuccess ''Analysis complete!'', sentiment_box (py_lower u s) s,
       StExpander (length text_input) (map_of kvs (ustr ''raw_response''))]"
    using assms(1,2) show_result_ok [OF assms(3,4) g, of u text_input]
    by (simp add: analyze_button_def Let_def)
  have n: "ascii_cases u \<and> map_of kvs (ustr ''sentiment'') = None \<longrightarrow>
           py_lower u s \<noteq> ustr ''positive'' \<and> py_lower u s \<noteq> ustr ''negative''"
    using assms(5) unknown_lower [of u] by auto
  define cls where "cls = (if py_lower u s = ustr ''positive'' then ''sentiment-positive''
      else if py_lower u s = ustr ''negative'' then ''sentiment-negative'' else ''sentiment-neutral'')"
  have box: "sentiment_box (py_lower u s) s = StMarkdown cls s"
    by (simp add: sentiment_box_def cls_def)
  have c1: "cls = ''sentiment-positive'' \<longleftrightarrow> py_lower u s = ustr ''positive''"
    by (simp add: cls_def)
  have c2: "cls = ''sentiment-negative'' \<longleftrightarrow> py_lower u s = ustr ''negative''"
    using label_names by (auto simp: cls_def)
  have c3: "cls = ''sentiment-neutral'' \<longleftrightarrow>
               py_lower u s \<noteq> ustr ''positive'' \<and> py_lower u s \<noteq> ustr ''negative''"
    by (simp add: cls_def)
  from shown box c1 c2 c3 n show ?thesis by auto
qed

theorem styling_by_lowered_sentiment_witness:
  "\<exists>cls. snd (analyze_button ascii_ucd
            (always (ok_reply (JObj [(ustr ''sentiment'', JStr (ustr ''Negative'')),
                                     (ustr ''text'', JStr (ustr ''Bad film'')),
                                     (ustr ''raw_response'', JStr (ustr ''negative''))])))
            (ustr ''Bad film'')) =
            [StSuccess ''Analysis complete!'', StMarkdown cls (ustr ''Negative''),
             StExpander (length (ustr ''Bad film''))
               (map_of [(ustr ''sentiment'', JStr (ustr ''Negative'')),
                        (ustr ''text'', JStr (ustr ''Bad film'')),
                        (ustr ''raw_response'', JStr (ustr ''negative''))] (ustr ''raw_response''))]
          \<and> (cls = ''sentiment-positive'' \<longleftrightarrow> py_lower ascii_ucd (ustr ''Negative'') = ustr ''positive'')
          \<and> (cls = ''sentiment-negative'' \<longleftrightarrow> py_lower ascii_ucd (ustr ''Negative'') = ustr ''negative'')
          \<and> (cls = ''sentiment-neutral'' \<longleftrightarrow>
               py_lower ascii_ucd (ustr ''Negative'') \<noteq> ustr ''positive''
               \<and> py_lower ascii_ucd (ustr ''Negative'') \<noteq> ustr ''negative'')
          \<and> (ascii_cases ascii_ucd
               \<and> map_of [(ustr ''sentiment'', JStr (ustr ''Negative'')),
                      (ustr ''text'', JStr (ustr ''Bad film'')),
                      (ustr ''raw_response'', JStr (ustr ''negative''))] (ustr ''sentiment'') = None
               \<longrightarrow> cls = ''sentiment-neutral'')"
proof -
  let ?kvs = "[(ustr ''sentiment'', JStr (ustr ''Negative'')),
               (ustr ''text'', JStr (ustr ''Bad film'')),
               (ustr ''raw_response'', JStr (ustr ''negative''))]"
  have h1: "py_strip (ustr ''Bad film'') \<noteq> []" by code_simp
  have h2: "always (ok_reply (JObj ?kvs)) (backend_request (ustr ''Bad film''))
              = Returns \<lparr> status_code = 200, body = Some (JObj ?kvs) \<rparr>"
    by (simp add: always_def ok_reply_def)
  have h3: "status_code \<lparr> status_code = 200, body = Some (JObj ?kvs) \<rparr> = 200" by simp
  have h4: "body \<lparr> status_code = 200, body = Some (JObj ?kvs) \<rparr> = Some (JObj ?kvs)" by simp
  have h5: "(map_of ?kvs (ustr ''sentiment'') = None \<and> ustr ''Negative'' = ustr ''Unknown'')
            \<or> map_of ?kvs (ustr ''sentiment'') = Some (JStr (ustr ''Negative''))" by simp
  from styling_by_lowered_sentiment
    [of "ustr ''Bad film''" "always (ok_reply (JObj ?kvs))"
        "\<lparr> status_code = 200, body = Some (JObj ?kvs) \<rparr>" ?kvs "ustr ''Negative''" ascii_ucd,
     OF h1 h2 h3 h4 h5]
  show ?thesis .
qed

theorem null_sentiment_shows_no_box:
  "always (ok_reply (JObj [(ustr ''sentiment'', JNull)])) (backend_request (ustr ''Bad film''))
     = Returns \<lparr> status_code = 200, body = Some (JObj [(ustr ''sentiment'', JNull)]) \<rparr>
   \<and> snd (analyze_button ascii_ucd (always (ok_reply (JObj [(ustr ''sentiment'', JNull)])))
          (ustr ''Bad film''))
     = [StSuccess ''Analysis complete!'', StErrorUnexpected AttributeError]"
proof
  show "always (ok_reply (JObj [(ustr ''sentiment'', JNull)])) (backend_request (ustr ''Bad film''))
     = Returns \<lparr> status_code = 200, body = Some (JObj [(ustr ''sentiment'', JNull)]) \<rparr>"
    by (simp add: always_def ok_reply_def)
next
  have ne: "py_strip (ustr ''Bad film'') \<noteq> []" by code_simp
  show "snd (analyze_button ascii_ucd (always (ok_reply (JObj [(ustr ''sentiment'', JNull)])))
          (ustr ''Bad film''))
     = [StSuccess ''Analysis complete!'', StErrorUnexpected AttributeError]"
    using ne by (simp add: analyze_button_def Let_def always_def ok_reply_def show_result_def
        response_json_def show_exception_def)
qed

section \<open>The process launcher\<close>

lemma poll_backend_none:
  "(\<forall>k<n. \<not> responds_ok (p (i + k))) \<Longrightarrow>
     poll_backend p i n = (concat (replicate n [root_get, Sleep 1]), False)"
proof (induction n arbitrary: i)
  case 0
  show ?case by simp
next
  case (Suc n)
  from Suc.prems have now: "\<not> responds_ok (p i)" by (auto dest: spec [of _ 0])
  have "\<forall>k<n. \<not> responds_ok (p (Suc i + k))"
  proof (intro allI impI)
    fix k assume "k < n"
    then have "Suc k < Suc n" by simp
    with Suc.prems have "\<not> responds_ok (p (i + Suc k))" by blast
    then show "\<not> responds_ok (p (Suc i + k))" by simp
  qed
  from Suc.IH [OF this] now show ?case by simp
qed

lemma poll_backend_first:
  "k < n \<Longrightarrow> responds_ok (p (i + k)) \<Longrightarrow> (\<forall>j<k. \<not> responds_ok (p (i + j))) \<Longrightarrow>
     poll_backend p i n = (concat (replicate k [root_get, Sleep 1]) @ [root_get], True)"
proof (induction k arbitrary: i n)
  case 0
  then obtain m where "n = Suc m" by (cases n) auto
  with 0 show ?case by simp
next
  case (Suc k)
  then obtain m where n: "n = Suc m" by (cases n) auto
  from Suc.prems(3) have now: "\<not> responds_ok (p i)" by (auto dest: spec [of _ 0])
  have later: "\<forall>j<k. \<not> responds_ok (p (Suc i + j))"
  proof (intro allI impI)
    fix j assume "j < k"
    then have "Suc j < Suc k" by simp
    with Suc.prems(3) have "\<not> responds_ok (p (i + Suc j))" by blast
    then show "\<not> responds_ok (p (Suc i + j))" by simp
  qed
  have km: "k < m" using Suc.prems(1) n by simp
  have ok: "responds_ok (p (Suc i + k))" using Suc.prems(2) by simp
  from Suc.IH [OF km ok later] now n show ?case by simp
qed

lemma poll_backend_result:
  "snd (poll_backend p i n) \<longleftrightarrow> (\<exists>k<n. responds_ok (p (i + k)))"
proof (cases "\<exists>k<n. responds_ok (p (i + k))")
  case False
  then have "\<forall>k<n. \<not> responds_ok (p (i + k))" by blast
  from poll_backend_none [OF this] False show ?thesis by simp
next
  case True
  define k where "k = (LEAST k. k < n \<and> responds_ok (p (i + k)))"
  from True have "k < n \<and> responds_ok (p (i + k))"
    unfolding k_def by (rule LeastI_ex)
  moreover have "\<forall>j<k. \<not> responds_ok (p (i + j))"
  proof (intro allI impI)
    fix j assume "j < k"
    then have "\<not> (j < n \<and> responds_ok (p (i + j)))"
      unfolding k_def by (rule not_less_Least)
    moreover have "j < n" using \<open>j < k\<close> \<open>k < n \<and> responds_ok (p (i + k))\<close> by simp
    ultimately show "\<not> responds_ok (p (i + j))" by simp
  qed
  ultimately have "poll_backend p i n = (concat (replicate k [root_get, Sleep 1]) @ [root_get], True)"
    using poll_backend_first [of k n p i] by blast
  with True show ?thesis by simp
qed

lemma stop_process_first:
  "hd (stop_process w svc ch) = SendSignal svc (if w then CTRL_BREAK_EVENT else SIGTERM)"
  by (simp add: stop_process_def Let_def split: wait_result.splits)

lemma stop_process_kill:
  "Kill svc \<in> set (stop_process w svc ch) \<longleftrightarrow> signal_raises ch \<or> wait5 ch \<noteq> Exited"
  by (cases "wait5 ch") (simp_all add: stop_process_def Let_def)

lemma stop_process_wait:
  "\<not> signal_raises ch \<Longrightarrow>
     take 2 (stop_process w svc ch)
       = [SendSignal svc (if w then CTRL_BREAK_EVENT else SIGTERM), Wait svc (Some 5)]"
  by (cases "wait5 ch") (simp_all add: stop_process_def Let_def)

lemma run_not_ready:
  assumes "requirements_ok env" and "backend_start env = Started b"
    and "\<not> snd (wait_for_backend (probe env))"
  shows "run env = ([Popen Backend, Sleep 3] @ fst (wait_for_backend (probe env))
                     @ stop_process (windows env) Backend b, Some (Returned False))"
  using assms
  by (simp add: run_def start_backend_def init_starter_def stop_services_def split_beta)

lemma run_started:
  assumes "requirements_ok env" and "backend_start env = Started b"
    and "snd (wait_for_backend (probe env))" and "frontend_start env = Started f"
    and "snd (run env) \<noteq> None"
  shows "fst (run env) = [Popen Backend, Sleep 3] @ fst (wait_for_backend (probe env))
           @ [Popen Frontend, Sleep 4] @ fst (monitor (ticks env))
           @ stop_process (windows env) Backend b @ stop_process (windows env) Frontend f"
proof (cases "monitor (ticks env)")
  case (Pair a4 r)
  show ?thesis
  proof (cases r)
    case None
    with Pair assms show ?thesis
      by (simp add: run_def start_backend_def start_frontend_def init_starter_def split_beta)
  next
    case (Some e)
    with Pair assms show ?thesis
      by (cases e)
         (simp_all add: run_def start_backend_def start_frontend_def init_starter_def
            stop_services_def split_beta)
  qed
qed

text \<open>
  Claim C7, amended. The launcher starts the API service and polls its root endpoint: an
  attempt that fails is followed by a sleep of one second and the next attempt, the first
  attempt that succeeds ends the polling, and after 30 failed attempts, each followed by
  its sleep, failure is reported. Then it starts the UI client; on exit it stops the
  children it started, each with the graceful signal first. A child is killed exactly
  when it has not exited within five seconds or when signalling or waiting for it raised
  an error: an error on the signal leads to the kill at once, without the wait.
\<close>

theorem launcher_behaviour:
  "root_get = HttpGet ''http://localhost:8000/'' 2
   \<and> (k < 30 \<and> responds_ok (p k) \<and> (\<forall>j<k. \<not> responds_ok (p j)) \<longrightarrow>
        wait_for_backend p = (concat (replicate k [root_get, Sleep 1]) @ [root_get], True))
   \<and> ((\<forall>j<30. \<not> responds_ok (p j)) \<longrightarrow>
        wait_for_backend p = (concat (replicate 30 [root_get, Sleep 1]), False))
   \<and> (snd (wait_for_backend p) \<longleftrightarrow> (\<exists>j<30. responds_ok (p j)))
   \<and> hd (stop_process w svc ch) = SendSignal svc (if w then CTRL_BREAK_EVENT else SIGTERM)
   \<and> (Kill svc \<in> set (stop_process w svc ch) \<longleftrightarrow> signal_raises ch \<or> wait5 ch \<noteq> Exited)
   \<and> (\<not> signal_raises ch \<longrightarrow>
        take 2 (stop_process w svc ch)
          = [SendSignal svc (if w then CTRL_BREAK_EVENT else SIGTERM), Wait svc (Some 5)])
   \<and> (requirements_ok env \<and> backend_start env = Started b
        \<and> \<not> snd (wait_for_backend (probe env)) \<longrightarrow>
        run env = ([Popen Backend, Sleep 3] @ fst (wait_for_backend (probe env))
                     @ stop_process (windows env) Backend b, Some (Returned False)))
   \<and> (requirements_ok env \<and> backend_start env = Started b
        \<and> snd (wait_for_backend (probe env)) \<and> frontend_start env = Started f
        \<and> snd (run env) \<noteq> None \<longrightarrow>
        fst (run env) = [Popen Backend, Sleep 3] @ fst (wait_for_backend (probe env))
           @ [Popen Frontend, Sleep 4] @ fst (monitor (ticks env))
           @ stop_process (windows env) Backend b @ stop_process (windows env) Frontend f)"
proof (intro conjI impI)
  show "root_get = HttpGet ''http://localhost:8000/'' 2" by (simp add: root_get_def)
  show "wait_for_backend p = (concat (replicate k [root_get, Sleep 1]) @ [root_get], True)"
    if "k < 30 \<and> responds_ok (p k) \<and> (\<forall>j<k. \<not> responds_ok (p j))"
    using that poll_backend_first [of k 30 p 0] by (simp add: wait_for_backend_def)
  show "wait_for_backend p = (concat (replicate 30 [root_get, Sleep 1]), False)"
    if "\<forall>j<30. \<not> responds_ok (p j)"
    using that poll_backend_none [of 30 p 0] by (simp add: wait_for_backend_def)
  show "snd (wait_for_backend p) \<longleftrightarrow> (\<exists>j<30. responds_ok (p j))"
    using poll_backend_result [of p 0 30] by (simp add: wait_for_backend_def)
  show "hd (stop_process w svc ch) = SendSignal svc (if w then CTRL_BREAK_EVENT else SIGTERM)"
    by (rule stop_process_first)
  show "Kill svc \<in> set (stop_process w svc ch) \<longleftrightarrow> signal_raises ch \<or> wait5 ch \<noteq> Exited"
    by (rule stop_process_kill)
  show "take 2 (stop_process w svc ch)
          = [SendSignal svc (if w then CTRL_BREAK_EVENT else SIGTERM), Wait svc (Some 5)]"
    if "\<not> signal_raises ch"
    using that by (rule stop_process_wait)
  show "run env = ([Popen Backend, Sleep 3] @ fst (wait_for_backend (probe env))
                     @ stop_process (windows env) Backend b, Some (Returned False))"
    if "requirements_ok env \<and> backend_start env = Started b
        \<and> \<not> snd (wait_for_backend (probe env))"
    using that run_not_ready [of env b] by blast
  show "fst (run env) = [Popen Backend, Sleep 3] @ fst (wait_for_backend (probe env))
           @ [Popen Frontend, Sleep 4] @ fst (monitor (ticks env))
           @ stop_process (windows env) Backend b @ stop_process (windows env) Frontend f"
    if "requirements_ok env \<and> backend_start env = Started b
        \<and> snd (wait_for_backend (probe env)) \<and> frontend_start env = Started f
        \<and> snd (run env) \<noteq> None"
    using that run_started [of env b f] by blast
qed

lemma demo_poll:
  "wait_for_backend (up_after 2) = ([root_get, Sleep 1, root_get, Sleep 1, root_get], True)"
  by code_simp

lemma demo_run: "run demo_env =
   ([Popen Backend, Sleep 3, root_get, Sleep 1, root_get, Sleep 1, root_get,
     Popen Frontend, Sleep 4, Sleep 1, Sleep 1, Sleep 1,
     SendSignal Backend SIGTERM, Wait Backend (Some 5),
     SendSignal Frontend SIGTERM, Wait Frontend (Some 5), Kill Frontend, Wait Frontend None],
    Some (SysExit 0))"
  by code_simp

theorem launcher_behaviour_witness:
  "wait_for_backend (up_after 2) = (concat (replicate 2 [root_get, Sleep 1]) @ [root_get], True)
   \<and> fst (run demo_env) = [Popen Backend, Sleep 3] @ fst (wait_for_backend (probe demo_env))
           @ [Popen Frontend, Sleep 4] @ fst (monitor (ticks demo_env))
           @ stop_process (windows demo_env) Backend quiet_child
           @ stop_process (windows demo_env) Frontend stubborn_child
   \<and> take 2 (stop_process False Frontend stubborn_child)
        = [SendSignal Frontend SIGTERM, Wait Frontend (Some 5)]"
proof -
  have h: "requirements_ok demo_env \<and> backend_start demo_env = Started quiet_child
        \<and> snd (wait_for_backend (probe demo_env)) \<and> frontend_start demo_env = Started stubborn_child
        \<and> snd (run demo_env) \<noteq> None"
    by (simp add: demo_run) (simp add: demo_env_def demo_poll)
  have n: "\<not> signal_raises stubborn_child" by (simp add: stubborn_child_def)
  have p: "(2::nat) < 30 \<and> responds_ok (up_after 2 2) \<and> (\<forall>j<2. \<not> responds_ok (up_after 2 j))"
    by (simp add: up_after_def responds_ok_def ok_reply_def)
  from launcher_behaviour
    [of 2 "up_after 2" False Frontend stubborn_child demo_env quiet_child stubborn_child] h n p
  show ?thesis by simp
qed

theorem kill_after_failed_signal:
  "wait5 deaf_child = Exited
   \<and> stop_process False Backend deaf_child = [SendSignal Backend SIGTERM, Kill Backend]"
  by (simp add: stop_process_def deaf_child_def)

end
